theory Spec2Isabelle
  imports Complex_Main
begin

section \<open>Short-rate model calibration notebook: data model\<close>

text \<open>
  The notebook \<^verbatim>\<open>Short_rate_models_calibration.ipynb\<close> consists of two functions of
  its own, \<^verbatim>\<open>create_swaption_helpers\<close> and \<^verbatim>\<open>calibration_report\<close>, and of cells
  that call the QuantLib library. The two functions are embedded below. Library objects
  are represented by the data the notebook constructs them from, and a constructor that
  rejects a Python integer returns an error. Library methods whose bodies are not part
  of the notebook (\<^verbatim>\<open>modelValue\<close>, \<^verbatim>\<open>blackPrice\<close>, \<^verbatim>\<open>impliedVolatility\<close>) are
  parameters of the embedding: functions that return a float or raise, and may change
  the library's objects. Python floats are idealised as real numbers.
\<close>

subsection \<open>Errors\<close>

text \<open>
  The exceptions the two functions can raise: \<^verbatim>\<open>data[i]\<close> out of range, a float
  division by zero, \<^verbatim>\<open>math.sqrt\<close> of a negative number, the library's
  \<^verbatim>\<open>RuntimeError\<close>, and the \<^verbatim>\<open>TypeError\<close> of a library constructor given a
  Python integer that does not fit its C++ parameter.
\<close>

datatype error = IndexError | ZeroDivisionError | ValueError | RuntimeError | TypeError

subsection \<open>Library values built by the notebook\<close>

datatype TimeUnit = Years

datatype Period = Period int TimeUnit

datatype DayCounter = Actual360 | Actual365Fixed

datatype Month = February

datatype Date = Date nat Month nat

datatype SimpleQuote = SimpleQuote real

datatype QuoteHandle = QuoteHandle SimpleQuote

datatype YieldTermStructure = FlatForward Date real DayCounter

datatype YieldTermStructureHandle = YieldTermStructureHandle YieldTermStructure

datatype IborIndex = Euribor1Y YieldTermStructureHandle

datatype ShortRateModel
  = HullWhite YieldTermStructureHandle
  | BlackKarasinski YieldTermStructureHandle
  | G2 YieldTermStructureHandle

datatype PricingEngine
  = JamshidianSwaptionEngine ShortRateModel
  | TreeSwaptionEngine ShortRateModel nat

text \<open>
  The library's \<^verbatim>\<open>Integer\<close> is a 32-bit signed integer, a Python \<^verbatim>\<open>int\<close> is
  unbounded: the call \<^verbatim>\<open>Period(n, Years)\<close> builds the period when \<open>n\<close> fits and
  raises \<^verbatim>\<open>TypeError\<close> otherwise.
\<close>

definition fits_Integer :: "int \<Rightarrow> bool" where
  "fits_Integer n = (- 2147483648 \<le> n \<and> n \<le> 2147483647)"

definition new_Period :: "int \<Rightarrow> TimeUnit \<Rightarrow> error + Period" where
  "new_Period n u = (if fits_Integer n then Inr (Period n u) else Inl TypeError)"

text \<open>\<^verbatim>\<open>CalibrationData = namedtuple("CalibrationData", "start, length, volatility")\<close>\<close>

record CalibrationData =
  start :: int
  length_cd :: int
  volatility :: real

text \<open>
  A swaption helper holds the eight constructor arguments the notebook passes, and the
  pricing engine bound afterwards by \<^verbatim>\<open>setPricingEngine\<close> (none at construction).
\<close>

record ('i, 't, 'e) SwaptionHelper =
  maturity :: Period
  swap_length :: Period
  vol_handle :: QuoteHandle
  ibor_index :: 'i
  fixedLegTenor :: Period
  fixedLegDayCounter :: DayCounter
  floatingLegDayCounter :: DayCounter
  termStructure :: 't
  pricingEngine :: "'e option"

definition SwaptionHelper ::
  "Period \<Rightarrow> Period \<Rightarrow> QuoteHandle \<Rightarrow> 'i \<Rightarrow> Period \<Rightarrow> DayCounter \<Rightarrow> DayCounter \<Rightarrow> 't
    \<Rightarrow> ('i, 't, 'e) SwaptionHelper" where
  "SwaptionHelper m l v i flt fdc fldc ts =
     \<lparr>maturity = m, swap_length = l, vol_handle = v, ibor_index = i, fixedLegTenor = flt,
      fixedLegDayCounter = fdc, floatingLegDayCounter = fldc, termStructure = ts,
      pricingEngine = None\<rparr>"

definition setPricingEngine ::
  "'e \<Rightarrow> ('i, 't, 'e) SwaptionHelper \<Rightarrow> ('i, 't, 'e) SwaptionHelper" where
  "setPricingEngine engine helper = helper\<lparr>pricingEngine := Some engine\<rparr>"

subsection \<open>The notebook's default scenario (cells 2, 3 and 7)\<close>

definition settlement :: Date where
  "settlement = Date 19 February 2002"

definition term_structure :: YieldTermStructureHandle where
  "term_structure = YieldTermStructureHandle (FlatForward settlement 0.04875825 Actual365Fixed)"

definition index :: IborIndex where
  "index = Euribor1Y term_structure"

definition data :: "CalibrationData list" where
  "data =
    [\<lparr>start = 1, length_cd = 5, volatility = 0.1148\<rparr>,
     \<lparr>start = 2, length_cd = 4, volatility = 0.1108\<rparr>,
     \<lparr>start = 3, length_cd = 3, volatility = 0.1070\<rparr>,
     \<lparr>start = 4, length_cd = 2, volatility = 0.1021\<rparr>,
     \<lparr>start = 5, length_cd = 1, volatility = 0.1000\<rparr>]"

definition engine_hw :: PricingEngine where
  "engine_hw = JamshidianSwaptionEngine (HullWhite term_structure)"

section \<open>create_swaption_helpers\<close>

text \<open>
  The \<^verbatim>\<open>for d in data\<close> loop. In its body the volatility handle is built first, then
  the arguments of \<^verbatim>\<open>SwaptionHelper\<close> are evaluated from left to right, the period of
  the start before the period of the length; the engine is bound to the new helper and
  the helper is appended to the list built so far. An exception ends the call, and the
  list built so far is lost.
\<close>

fun create_swaption_helpers_loop ::
  "CalibrationData list \<Rightarrow> 'i \<Rightarrow> 't \<Rightarrow> 'e \<Rightarrow> Period \<Rightarrow> DayCounter \<Rightarrow> DayCounter
    \<Rightarrow> ('i, 't, 'e) SwaptionHelper list \<Rightarrow> error + ('i, 't, 'e) SwaptionHelper list" where
  "create_swaption_helpers_loop [] idx ts engine flt fdc fldc swaptions = Inr swaptions"
| "create_swaption_helpers_loop (d # ds) idx ts engine flt fdc fldc swaptions =
     (let vh = QuoteHandle (SimpleQuote (volatility d)) in
      (case new_Period (start d) Years of
         Inl e \<Rightarrow> Inl e
       | Inr m \<Rightarrow>
           (case new_Period (length_cd d) Years of
              Inl e \<Rightarrow> Inl e
            | Inr l \<Rightarrow>
                (let helper = SwaptionHelper m l vh idx flt fdc fldc ts;
                     helper' = setPricingEngine engine helper
                 in create_swaption_helpers_loop ds idx ts engine flt fdc fldc
                      (swaptions @ [helper'])))))"

definition create_swaption_helpers ::
  "CalibrationData list \<Rightarrow> 'i \<Rightarrow> 't \<Rightarrow> 'e \<Rightarrow> error + ('i, 't, 'e) SwaptionHelper list" where
  "create_swaption_helpers dat idx ts engine =
     (let swaptions = [] in
      (case new_Period 1 Years of
         Inl e \<Rightarrow> Inl e
       | Inr fixed_leg_tenor \<Rightarrow>
           (let fixed_leg_daycounter = Actual360;
                floating_leg_daycounter = Actual360
            in create_swaption_helpers_loop dat idx ts engine
                 fixed_leg_tenor fixed_leg_daycounter floating_leg_daycounter swaptions)))"

text \<open>The helper the loop body builds for one quote whose integers fit.\<close>

definition helper_of ::
  "'i \<Rightarrow> 't \<Rightarrow> 'e \<Rightarrow> CalibrationData \<Rightarrow> ('i, 't, 'e) SwaptionHelper" where
  "helper_of idx ts engine d =
     \<lparr>maturity = Period (start d) Years, swap_length = Period (length_cd d) Years,
      vol_handle = QuoteHandle (SimpleQuote (volatility d)), ibor_index = idx,
      fixedLegTenor = Period 1 Years, fixedLegDayCounter = Actual360,
      floatingLegDayCounter = Actual360, termStructure = ts, pricingEngine = Some engine\<rparr>"

text \<open>The start and the length of a quote both fit the library's \<^verbatim>\<open>Integer\<close>.\<close>

definition quote_fits :: "CalibrationData \<Rightarrow> bool" where
  "quote_fits d = (fits_Integer (start d) \<and> fits_Integer (length_cd d))"

text \<open>
  A malformed quote in the words of the specification: non-positive tenor or
  non-positive volatility.
\<close>

definition spec_malformed_quote :: "CalibrationData \<Rightarrow> bool" where
  "spec_malformed_quote d = (length_cd d \<le> 0 \<or> volatility d \<le> 0)"

section \<open>calibration_report\<close>

subsection \<open>Library methods and the notebook's state\<close>

text \<open>
  The three helper methods \<^verbatim>\<open>calibration_report\<close> calls. Their bodies belong to the
  library, so they are parameters. A method receives the library's objects (of a type
  \<open>'w\<close> left open: the yield curve, the model with its parameter vector, the engines,
  the state of the helper objects) and the helper it is called on (a reference into
  them); it returns a float or raises, and leaves the library's objects in a state of
  its choice.
\<close>

record ('w, 'h) helper_methods =
  modelValue :: "'w \<Rightarrow> 'h \<Rightarrow> (error + real) \<times> 'w"
  blackPrice :: "'w \<Rightarrow> 'h \<Rightarrow> real \<Rightarrow> (error + real) \<times> 'w"
  impliedVolatility ::
    "'w \<Rightarrow> 'h \<Rightarrow> real \<Rightarrow> real \<Rightarrow> nat \<Rightarrow> real \<Rightarrow> real \<Rightarrow> (error + real) \<times> 'w"

text \<open>
  A line written by \<^verbatim>\<open>print\<close>, as the number passed to the \<^verbatim>\<open>%7.5f\<close> format.
\<close>

datatype output_line = Cumulative_Error_Price real | Cumulative_Error_Vols real

text \<open>
  The state a call \<^verbatim>\<open>calibration_report(swaptions, data)\<close> runs in: the library's
  objects, the two Python lists passed as arguments, and the standard output.
\<close>

record ('w, 'h) notebook =
  ql :: 'w
  nb_swaptions :: "'h list"
  nb_data :: "CalibrationData list"
  stdout :: "output_line list"

text \<open>One tuple appended to \<^verbatim>\<open>report_data\<close>, with each field under the name of its column.\<close>

record report_row =
  Model_Price :: real
  Market_Price :: real
  Implied_Vol :: real
  Market_Vol :: real
  Rel_Error_Price :: real
  Rel_Error_Vols :: real

record DataFrame =
  df_data :: "report_row list"
  df_columns :: "string list"
  df_index :: "string list"

text \<open>The local variables the loop updates.\<close>

record report_locals =
  report_data :: "report_row list"
  cum_err :: real
  cum_err2 :: real

definition math_sqrt :: "real \<Rightarrow> error + real" where
  "math_sqrt x = (if x < 0 then Inl ValueError else Inr (sqrt x))"

subsection \<open>The function\<close>

text \<open>
  The statements of the loop body up to the tuple of the row, for the helper \<open>s\<close> at
  position \<open>i\<close>, from the library's objects \<open>w\<close>; an exception of any statement ends
  the call. The library's objects are returned as the calls made so far have left them.
\<close>

definition report_row_of ::
  "('w, 'h) helper_methods \<Rightarrow> 'w \<Rightarrow> CalibrationData list \<Rightarrow> nat \<Rightarrow> 'h
    \<Rightarrow> (error + report_row) \<times> 'w" where
  "report_row_of lib w dat i s =
     (case modelValue lib w s of
        (Inl e, w1) \<Rightarrow> (Inl e, w1)
      | (Inr model_price, w1) \<Rightarrow>
          (if length dat \<le> i then (Inl IndexError, w1)
           else
             (let market_vol = volatility (dat ! i) in
              (case blackPrice lib w1 s market_vol of
                 (Inl e, w2) \<Rightarrow> (Inl e, w2)
               | (Inr black_price, w2) \<Rightarrow>
                   (if black_price = 0 then (Inl ZeroDivisionError, w2)
                    else
                      (let rel_error = model_price / black_price - 1.0 in
                       (case impliedVolatility lib w2 s model_price 0.00001 50 0.0 0.50 of
                          (Inl e, w3) \<Rightarrow> (Inl e, w3)
                        | (Inr implied_vol, w3) \<Rightarrow>
                            (if market_vol = 0 then (Inl ZeroDivisionError, w3)
                             else
                               (let rel_error2 = implied_vol / market_vol - 1.0 in
                                (Inr \<lparr>Model_Price = model_price, Market_Price = black_price,
                                      Implied_Vol = implied_vol, Market_Vol = market_vol,
                                      Rel_Error_Price = rel_error,
                                      Rel_Error_Vols = rel_error2\<rparr>, w3))))))))))"

text \<open>\<^verbatim>\<open>for i, s in enumerate(swaptions)\<close>, from position \<open>i\<close> on.\<close>

fun calibration_report_loop ::
  "('w, 'h) helper_methods \<Rightarrow> CalibrationData list \<Rightarrow> nat \<Rightarrow> 'h list \<Rightarrow> 'w
    \<Rightarrow> report_locals \<Rightarrow> (error + report_locals) \<times> 'w" where
  "calibration_report_loop lib dat i [] w st = (Inr st, w)"
| "calibration_report_loop lib dat i (s # ss) w st =
     (case report_row_of lib w dat i s of
        (Inl e, w') \<Rightarrow> (Inl e, w')
      | (Inr row, w') \<Rightarrow>
          calibration_report_loop lib dat (Suc i) ss w'
            \<lparr>report_data = report_data st @ [row],
             cum_err = cum_err st + (Rel_Error_Price row)\<^sup>2,
             cum_err2 = cum_err2 st + (Rel_Error_Vols row)\<^sup>2\<rparr>)"

definition calibration_report ::
  "('w, 'h) helper_methods \<Rightarrow> ('w, 'h) notebook \<Rightarrow> (error + DataFrame) \<times> ('w, 'h) notebook" where
  "calibration_report lib nb =
     (let columns = [''Model Price'', ''Market Price'', ''Implied Vol'', ''Market Vol'',
                     ''Rel Error Price'', ''Rel Error Vols''] in
      (case calibration_report_loop lib (nb_data nb) 0 (nb_swaptions nb) (ql nb)
              \<lparr>report_data = [], cum_err = 0.0, cum_err2 = 0.0\<rparr> of
         (Inl e, w) \<Rightarrow> (Inl e, nb\<lparr>ql := w\<rparr>)
       | (Inr st, w) \<Rightarrow>
           (let nb0 = nb\<lparr>ql := w\<rparr> in
            (case math_sqrt (cum_err st) of
               Inl e \<Rightarrow> (Inl e, nb0)
             | Inr r \<Rightarrow>
                 (let nb1 = nb0\<lparr>stdout := stdout nb0 @ [Cumulative_Error_Price r]\<rparr> in
                  (case math_sqrt (cum_err2 st) of
                     Inl e \<Rightarrow> (Inl e, nb1)
                   | Inr r2 \<Rightarrow>
                       (let nb2 = nb1\<lparr>stdout := stdout nb1 @ [Cumulative_Error_Vols r2]\<rparr> in
                        (Inr \<lparr>df_data = report_data st, df_columns = columns,
                              df_index = replicate (length (report_data st)) ''''\<rparr>,
                         nb2))))))))"

text \<open>
  The root mean square in the words of the specification: the square root of the mean
  of the squares.
\<close>

definition spec_rms :: "real list \<Rightarrow> real" where
  "spec_rms xs = sqrt ((\<Sum>x\<leftarrow>xs. x\<^sup>2) / real (length xs))"

subsection \<open>What the specification says of the helper methods\<close>

text \<open>
  Modelled from the spec: the effect of the helper methods \<^verbatim>\<open>modelValue\<close>,
  \<^verbatim>\<open>blackPrice\<close> and \<^verbatim>\<open>impliedVolatility\<close> on the library's objects; the bodies of
  the methods are missing. Section 5: "repricing has no side effects on outside state";
  section 3: the yield curve is "immutable for the duration of a calibration run", the
  model's parameter vector is "mutated only by the Optimizer during calibrate()".
\<close>

definition spec_read_only :: "('w, 'h) helper_methods \<Rightarrow> bool" where
  "spec_read_only lib =
     ((\<forall>w s. snd (modelValue lib w s) = w)
      \<and> (\<forall>w s v. snd (blackPrice lib w s v) = w)
      \<and> (\<forall>w s p tol n lo hi. snd (impliedVolatility lib w s p tol n lo hi) = w))"

text \<open>
  Modelled from the spec: when a target price has no implied volatility within given
  bounds; the body of \<^verbatim>\<open>blackPrice\<close> is missing. Section 4.1: "targetPrice lies outside
  the value range achievable within [lowerBound, upperBound]", that is, no volatility
  within the bounds has the target as its Black price.
\<close>

definition spec_outside_range ::
  "('w, 'h) helper_methods \<Rightarrow> 'w \<Rightarrow> 'h \<Rightarrow> real \<Rightarrow> real \<Rightarrow> real \<Rightarrow> bool" where
  "spec_outside_range lib w s target lo hi =
     (\<forall>v. lo \<le> v \<and> v \<le> hi \<longrightarrow> fst (blackPrice lib w s v) \<noteq> Inr target)"

text \<open>
  Modelled from the spec: the failure of the root search of \<^verbatim>\<open>impliedVolatility\<close>; the
  body of the method is missing. Section 4.1: it "fails with NoConvergence [...] if
  targetPrice lies outside the value range achievable within [lowerBound, upperBound]".
  In Python the library's errors are raised as \<^verbatim>\<open>RuntimeError\<close>.
\<close>

definition spec_root_search_fails :: "('w, 'h) helper_methods \<Rightarrow> bool" where
  "spec_root_search_fails lib =
     (\<forall>w s target tol n lo hi.
        spec_outside_range lib w s target lo hi
          \<longrightarrow> fst (impliedVolatility lib w s target tol n lo hi) = Inl RuntimeError)"

section \<open>Concrete inputs\<close>

text \<open>
  The library's objects a small library reads: the shared yield curve and the parameter
  vector of the model behind the bound engine.
\<close>

record 't ql_objects =
  yield_curve :: 't
  model_params :: "real list"

type_synonym nb_helper = "(IborIndex, YieldTermStructureHandle, PricingEngine) SwaptionHelper"

type_synonym nb_world = "YieldTermStructureHandle ql_objects"

type_synonym nb_methods = "(nb_world, nb_helper) helper_methods"

text \<open>
  A small stand-in for the library methods, to run \<^verbatim>\<open>calibration_report\<close> on concrete
  inputs: the model price of a helper is the first model parameter times the swap length
  in years, the Black price at a volatility is that volatility, and the implied
  volatility of a price is the price itself when it lies within the search bounds, a
  \<^verbatim>\<open>RuntimeError\<close> otherwise. No method changes the library's objects.
\<close>

fun period_length :: "Period \<Rightarrow> int" where
  "period_length (Period n u) = n"

definition stub_methods :: nb_methods where
  "stub_methods =
     \<lparr>modelValue = (\<lambda>w s. (case model_params w of
                               [] \<Rightarrow> Inl RuntimeError
                             | a # _ \<Rightarrow> Inr (a * real_of_int (period_length (swap_length s))),
                            w)),
      blackPrice = (\<lambda>w s v. (Inr v, w)),
      impliedVolatility =
        (\<lambda>w s p tol n lo hi. (if lo \<le> p \<and> p \<le> hi then Inr p else Inl RuntimeError, w))\<rparr>"

text \<open>
  The same methods, except that the root search answers only when called with the
  tolerance, iteration cap and bounds \<^verbatim>\<open>(1e-5, 50, 0.0, 0.50)\<close>.
\<close>

definition stub_methods_strict :: nb_methods where
  "stub_methods_strict =
     stub_methods\<lparr>impliedVolatility :=
        (\<lambda>w s p tol n lo hi.
           if tol = 0.00001 \<and> n = 50 \<and> lo = 0.0 \<and> hi = 0.50
           then impliedVolatility stub_methods w s p tol n lo hi else (Inl ValueError, w))\<rparr>"

text \<open>
  The stand-in with a model price that has a side effect: each call empties the model's
  parameter vector.
\<close>

definition stub_methods_resetting :: nb_methods where
  "stub_methods_resetting =
     stub_methods\<lparr>modelValue :=
        (\<lambda>w s. (fst (modelValue stub_methods w s), w\<lparr>model_params := []\<rparr>))\<rparr>"

text \<open>The helpers of a quote list whose integers fit, for the notebook's index, curve and engine.\<close>

definition helpers_of :: "CalibrationData list \<Rightarrow> nb_helper list" where
  "helpers_of dat = map (helper_of index term_structure engine_hw) dat"

text \<open>Four equal quotes, and a model whose first parameter is 0.2.\<close>

definition four_quotes :: "CalibrationData list" where
  "four_quotes = replicate 4 \<lparr>start = 1, length_cd = 1, volatility = 0.1\<rparr>"

definition nb_four :: "(nb_world, nb_helper) notebook" where
  "nb_four =
     \<lparr>ql = \<lparr>yield_curve = term_structure, model_params = [0.2, 0.01]\<rparr>,
      nb_swaptions = helpers_of four_quotes, nb_data = four_quotes, stdout = []\<rparr>"

definition row_four :: report_row where
  "row_four =
     \<lparr>Model_Price = 0.2, Market_Price = 0.1, Implied_Vol = 0.2, Market_Vol = 0.1,
      Rel_Error_Price = 1, Rel_Error_Vols = 1\<rparr>"

definition df_four :: DataFrame where
  "df_four =
     \<lparr>df_data = [row_four, row_four, row_four, row_four],
      df_columns = [''Model Price'', ''Market Price'', ''Implied Vol'', ''Market Vol'',
                    ''Rel Error Price'', ''Rel Error Vols''],
      df_index = ['''', '''', '''', '''']\<rparr>"

text \<open>Two quotes; under the stand-in the second has model price 1.0, above the bound 0.50.\<close>

definition two_quotes :: "CalibrationData list" where
  "two_quotes =
     [\<lparr>start = 1, length_cd = 1, volatility = 0.1\<rparr>,
      \<lparr>start = 1, length_cd = 5, volatility = 0.1\<rparr>]"

definition nb_two :: "(nb_world, nb_helper) notebook" where
  "nb_two =
     \<lparr>ql = \<lparr>yield_curve = term_structure, model_params = [0.2, 0.01]\<rparr>,
      nb_swaptions = helpers_of two_quotes, nb_data = two_quotes, stdout = []\<rparr>"

text \<open>
  One quote of volatility 0 and length 5: under the stand-in its model price is 1.0,
  above the bound 0.50, and its Black price at the market volatility is 0.
\<close>

definition zero_vol_quotes :: "CalibrationData list" where
  "zero_vol_quotes = [\<lparr>start = 1, length_cd = 5, volatility = 0\<rparr>]"

definition nb_zero_vol :: "(nb_world, nb_helper) notebook" where
  "nb_zero_vol =
     \<lparr>ql = \<lparr>yield_curve = term_structure, model_params = [0.2, 0.01]\<rparr>,
      nb_swaptions = helpers_of zero_vol_quotes, nb_data = zero_vol_quotes, stdout = []\<rparr>"

text \<open>The helpers of the two quotes, reported against an empty quote list.\<close>

definition nb_no_quotes :: "(nb_world, nb_helper) notebook" where
  "nb_no_quotes = nb_two\<lparr>nb_data := []\<rparr>"

text \<open>A quote with tenor 0 and volatility -0.5.\<close>

definition malformed_quote :: CalibrationData where
  "malformed_quote = \<lparr>start = 1, length_cd = 0, volatility = - 0.5\<rparr>"

text \<open>A quote whose start is \<open>2^31\<close>, and a quote whose tenor is \<open>- 2^31 - 1\<close>.\<close>

definition big_start_quote :: CalibrationData where
  "big_start_quote = \<lparr>start = 2147483648, length_cd = 1, volatility = 0.1\<rparr>"

definition big_negative_tenor_quote :: CalibrationData where
  "big_negative_tenor_quote = \<lparr>start = 1, length_cd = - 2147483649, volatility = 0.1\<rparr>"

section \<open>Properties of create_swaption_helpers\<close>

text \<open>
  When every quote fits, the loop appends the helper of each quote in turn; when some
  quote does not, it raises \<^verbatim>\<open>TypeError\<close>.
\<close>

lemma create_swaption_helpers_loop_fits:
  "list_all quote_fits ds \<Longrightarrow>
     create_swaption_helpers_loop ds idx ts engine (Period 1 Years) Actual360 Actual360 acc
       = Inr (acc @ map (helper_of idx ts engine) ds)"
proof (induction ds arbitrary: acc)
  case Nil
  show ?case by simp
next
  case (Cons d ds)
  from Cons.prems have rest: "list_all quote_fits ds" by simp
  from Cons.prems have "quote_fits d" by simp
  then have "fits_Integer (start d)" "fits_Integer (length_cd d)"
    by (simp_all add: quote_fits_def)
  then show ?case
    by (simp add: Cons.IH [OF rest] new_Period_def Let_def SwaptionHelper_def
        setPricingEngine_def helper_of_def)
qed

lemma create_swaption_helpers_loop_raises:
  "\<not> list_all quote_fits ds \<Longrightarrow>
     create_swaption_helpers_loop ds idx ts engine flt fdc fldc acc = Inl TypeError"
proof (induction ds arbitrary: acc)
  case Nil
  then show ?case by simp
next
  case (Cons d ds)
  show ?case
  proof (cases "quote_fits d")
    case True
    with Cons.prems have "\<not> list_all quote_fits ds" by simp
    from Cons.IH [OF this] True show ?thesis
      by (simp add: quote_fits_def new_Period_def Let_def)
  next
    case False
    then show ?thesis
      by (auto simp: quote_fits_def new_Period_def Let_def)
  qed
qed

lemma create_swaption_helpers_cases:
  "create_swaption_helpers dat idx ts engine =
     (if list_all quote_fits dat then Inr (map (helper_of idx ts engine) dat)
      else Inl TypeError)"
  by (simp add: create_swaption_helpers_def new_Period_def fits_Integer_def
      create_swaption_helpers_loop_fits create_swaption_helpers_loop_raises)

lemma data_fits: "list_all quote_fits data"
  by (simp add: data_def quote_fits_def fits_Integer_def)

text \<open>
  Claim C5, as the code has it. For every quote list whose start offsets and tenor
  lengths fit the library's 32-bit \<^verbatim>\<open>Integer\<close>, \<^verbatim>\<open>create_swaption_helpers\<close> returns
  exactly one helper per quote, in the order of the quotes: the result has the length of
  the quote list, and the helper at position \<open>i\<close> carries the start, tenor and
  volatility of the quote at position \<open>i\<close> and is bound to the given index, curve and
  engine.
\<close>

theorem create_swaption_helpers_one_per_quote:
  "list_all quote_fits dat \<Longrightarrow>
     \<exists>hs. create_swaption_helpers dat idx ts engine = Inr hs
       \<and> length hs = length dat
       \<and> hs = map (helper_of idx ts engine) dat
       \<and> (\<forall>i<length dat.
             maturity (hs ! i) = Period (start (dat ! i)) Years
           \<and> swap_length (hs ! i) = Period (length_cd (dat ! i)) Years
           \<and> vol_handle (hs ! i) = QuoteHandle (SimpleQuote (volatility (dat ! i)))
           \<and> ibor_index (hs ! i) = idx
           \<and> termStructure (hs ! i) = ts
           \<and> pricingEngine (hs ! i) = Some engine)"
  by (simp add: create_swaption_helpers_cases helper_of_def)

text \<open>The notebook's five quotes: five helpers, the third built from the quote (3, 3, 0.1070).\<close>

theorem create_swaption_helpers_one_per_quote_witness:
  "list_all quote_fits data
   \<and> (\<exists>hs. create_swaption_helpers data index term_structure engine_hw = Inr hs
        \<and> length hs = 5
        \<and> maturity (hs ! 2) = Period 3 Years
        \<and> swap_length (hs ! 2) = Period 3 Years
        \<and> vol_handle (hs ! 2) = QuoteHandle (SimpleQuote 0.1070)
        \<and> termStructure (hs ! 2) = term_structure
        \<and> pricingEngine (hs ! 2) = Some engine_hw)"
proof -
  have len: "length data = 5"
    and d2: "data ! 2 = \<lparr>start = 3, length_cd = 3, volatility = 0.1070\<rparr>"
    by (simp_all add: data_def)
  have lt: "(2::nat) < length data" by (simp add: len)
  from create_swaption_helpers_one_per_quote [OF data_fits, of index term_structure engine_hw]
  obtain hs where
    hs: "create_swaption_helpers data index term_structure engine_hw = Inr hs"
    and l: "length hs = length data"
    and all: "\<forall>i<length data.
             maturity (hs ! i) = Period (start (data ! i)) Years
           \<and> swap_length (hs ! i) = Period (length_cd (data ! i)) Years
           \<and> vol_handle (hs ! i) = QuoteHandle (SimpleQuote (volatility (data ! i)))
           \<and> ibor_index (hs ! i) = index
           \<and> termStructure (hs ! i) = term_structure
           \<and> pricingEngine (hs ! i) = Some engine_hw"
    by blast
  from all lt have
    "maturity (hs ! 2) = Period (start (data ! 2)) Years
     \<and> swap_length (hs ! 2) = Period (length_cd (data ! 2)) Years
     \<and> vol_handle (hs ! 2) = QuoteHandle (SimpleQuote (volatility (data ! 2)))
     \<and> termStructure (hs ! 2) = term_structure
     \<and> pricingEngine (hs ! 2) = Some engine_hw"
    by blast
  with hs l len d2 have
    "create_swaption_helpers data index term_structure engine_hw = Inr hs
        \<and> length hs = 5
        \<and> maturity (hs ! 2) = Period 3 Years
        \<and> swap_length (hs ! 2) = Period 3 Years
        \<and> vol_handle (hs ! 2) = QuoteHandle (SimpleQuote 0.1070)
        \<and> termStructure (hs ! 2) = term_structure
        \<and> pricingEngine (hs ! 2) = Some engine_hw"
    by simp
  with data_fits show ?thesis by blast
qed

text \<open>
  Claim C5, as stated, fails: with a sixth quote whose start is \<open>2^31\<close> the call raises
  \<^verbatim>\<open>TypeError\<close> and returns no list.
\<close>

theorem create_swaption_helpers_raises_type_error:
  "create_swaption_helpers (data @ [big_start_quote]) index term_structure engine_hw
     = Inl TypeError"
  by (simp add: create_swaption_helpers_cases big_start_quote_def quote_fits_def
      fits_Integer_def)

text \<open>
  Claim C7, as the code has it. \<^verbatim>\<open>create_swaption_helpers\<close> validates neither tenor
  nor volatility. In a list whose start offsets and tenor lengths fit the library's
  32-bit \<^verbatim>\<open>Integer\<close>, a quote with non-positive tenor or non-positive volatility is
  turned into a helper like any other, carrying that tenor and that volatility
  unchanged, and the helpers of the quotes before and after it are built as well. The
  only error the function raises is the \<^verbatim>\<open>TypeError\<close> of an integer that does not fit.
\<close>

theorem create_swaption_helpers_accepts_malformed_quote:
  "(spec_malformed_quote d \<and> list_all quote_fits (pre @ d # post) \<longrightarrow>
      create_swaption_helpers (pre @ d # post) idx ts engine
        = Inr (map (helper_of idx ts engine) pre
                @ helper_of idx ts engine d # map (helper_of idx ts engine) post)
      \<and> swap_length (helper_of idx ts engine d) = Period (length_cd d) Years
      \<and> vol_handle (helper_of idx ts engine d) = QuoteHandle (SimpleQuote (volatility d)))
   \<and> (create_swaption_helpers dat idx ts engine = Inl e \<longrightarrow>
        e = TypeError \<and> \<not> list_all quote_fits dat)"
  by (simp add: create_swaption_helpers_cases helper_of_def)

text \<open>
  The malformed quote appended to the notebook's five quotes; and a quote whose tenor is
  below \<open>- 2^31\<close>.
\<close>

theorem create_swaption_helpers_accepts_malformed_quote_witness:
  "spec_malformed_quote malformed_quote
   \<and> list_all quote_fits (data @ [malformed_quote])
   \<and> create_swaption_helpers (data @ [malformed_quote]) index term_structure engine_hw
       = Inr (map (helper_of index term_structure engine_hw) data
               @ [helper_of index term_structure engine_hw malformed_quote])
   \<and> swap_length (helper_of index term_structure engine_hw malformed_quote) = Period 0 Years
   \<and> vol_handle (helper_of index term_structure engine_hw malformed_quote)
        = QuoteHandle (SimpleQuote (- 0.5))
   \<and> create_swaption_helpers [big_negative_tenor_quote] index term_structure engine_hw
        = Inl TypeError
   \<and> \<not> list_all quote_fits [big_negative_tenor_quote]"
proof -
  have m: "spec_malformed_quote malformed_quote"
    by (simp add: spec_malformed_quote_def malformed_quote_def)
  have f: "list_all quote_fits (data @ [malformed_quote])"
    using data_fits by (simp add: malformed_quote_def quote_fits_def fits_Integer_def)
  have r: "create_swaption_helpers [big_negative_tenor_quote] index term_structure engine_hw
        = Inl TypeError"
    by (simp add: create_swaption_helpers_def create_swaption_helpers_loop_raises
        new_Period_def fits_Integer_def big_negative_tenor_quote_def quote_fits_def)
  note t1 = create_swaption_helpers_accepts_malformed_quote
              [of malformed_quote data "[]" index term_structure engine_hw]
  note t2 = create_swaption_helpers_accepts_malformed_quote
              [of _ _ _ index term_structure engine_hw "[big_negative_tenor_quote]" TypeError]
  from t1 m f have
    "create_swaption_helpers (data @ [malformed_quote]) index term_structure engine_hw
       = Inr (map (helper_of index term_structure engine_hw) data
               @ [helper_of index term_structure engine_hw malformed_quote])
     \<and> swap_length (helper_of index term_structure engine_hw malformed_quote)
         = Period (length_cd malformed_quote) Years
     \<and> vol_handle (helper_of index term_structure engine_hw malformed_quote)
         = QuoteHandle (SimpleQuote (volatility malformed_quote))"
    by simp
  moreover from t2 r have "\<not> list_all quote_fits [big_negative_tenor_quote]"
    by blast
  ultimately show ?thesis using m f r by (simp add: malformed_quote_def)
qed

text \<open>
  Claim C7, as stated, fails: from the quote with tenor 0 and volatility -0.5 the
  function returns a helper, and no error.
\<close>

theorem create_swaption_helpers_no_configuration_error:
  "spec_malformed_quote malformed_quote
   \<and> create_swaption_helpers [malformed_quote] index term_structure engine_hw
       = Inr [\<lparr>maturity = Period 1 Years, swap_length = Period 0 Years,
               vol_handle = QuoteHandle (SimpleQuote (- 0.5)), ibor_index = index,
               fixedLegTenor = Period 1 Years, fixedLegDayCounter = Actual360,
               floatingLegDayCounter = Actual360, termStructure = term_structure,
               pricingEngine = Some engine_hw\<rparr>]"
  by (simp add: spec_malformed_quote_def malformed_quote_def create_swaption_helpers_def
      new_Period_def fits_Integer_def SwaptionHelper_def setPricingEngine_def Let_def)

section \<open>Properties of calibration_report\<close>

subsection \<open>The loop\<close>

text \<open>
  When the loop returns, it has appended one row per helper, and added the squares of
  the rows' relative errors to the two running sums.
\<close>

lemma calibration_report_loop_rows:
  "calibration_report_loop lib dat i ss w st = (Inr st', w') \<Longrightarrow>
     \<exists>rows. report_data st' = report_data st @ rows \<and> length rows = length ss
       \<and> cum_err st' = cum_err st + (\<Sum>r\<leftarrow>rows. (Rel_Error_Price r)\<^sup>2)
       \<and> cum_err2 st' = cum_err2 st + (\<Sum>r\<leftarrow>rows. (Rel_Error_Vols r)\<^sup>2)"
proof (induction ss arbitrary: i w st)
  case Nil
  then show ?case by simp
next
  case (Cons s ss)
  from Cons.prems obtain row w1 where
    row: "report_row_of lib w dat i s = (Inr row, w1)"
    and rest: "calibration_report_loop lib dat (Suc i) ss w1
            \<lparr>report_data = report_data st @ [row],
             cum_err = cum_err st + (Rel_Error_Price row)\<^sup>2,
             cum_err2 = cum_err2 st + (Rel_Error_Vols row)\<^sup>2\<rparr> = (Inr st', w')"
    by (auto split: prod.splits sum.splits)
  from Cons.IH [OF rest] obtain rows where
    "report_data st' = (report_data st @ [row]) @ rows" "length rows = length ss"
    "cum_err st' = cum_err st + (Rel_Error_Price row)\<^sup>2 + (\<Sum>r\<leftarrow>rows. (Rel_Error_Price r)\<^sup>2)"
    "cum_err2 st' = cum_err2 st + (Rel_Error_Vols row)\<^sup>2 + (\<Sum>r\<leftarrow>rows. (Rel_Error_Vols r)\<^sup>2)"
    by auto
  then have "report_data st' = report_data st @ (row # rows)
       \<and> length (row # rows) = length (s # ss)
       \<and> cum_err st' = cum_err st + (\<Sum>r\<leftarrow>row # rows. (Rel_Error_Price r)\<^sup>2)
       \<and> cum_err2 st' = cum_err2 st + (\<Sum>r\<leftarrow>row # rows. (Rel_Error_Vols r)\<^sup>2)"
    by simp
  then show ?case by blast
qed

lemma sum_list_squares_nonneg: "0 \<le> (\<Sum>r\<leftarrow>rows. (f r :: real)\<^sup>2)"
  by (induction rows) simp_all

lemma calibration_report_loop_cum_nonneg:
  assumes "calibration_report_loop lib dat i ss w st = (Inr st', w')"
    and "0 \<le> cum_err st" and "0 \<le> cum_err2 st"
  shows "0 \<le> cum_err st' \<and> 0 \<le> cum_err2 st'"
proof -
  from calibration_report_loop_rows [OF assms(1)] obtain rows :: "report_row list" where
    "cum_err st' = cum_err st + (\<Sum>r\<leftarrow>rows. (Rel_Error_Price r)\<^sup>2)"
    "cum_err2 st' = cum_err2 st + (\<Sum>r\<leftarrow>rows. (Rel_Error_Vols r)\<^sup>2)"
    by blast
  with assms(2,3) sum_list_squares_nonneg [of Rel_Error_Price rows]
    sum_list_squares_nonneg [of Rel_Error_Vols rows]
  show ?thesis by simp
qed

text \<open>The two ways a call ends, in terms of the loop.\<close>

lemma calibration_report_raises:
  assumes "calibration_report_loop lib (nb_data nb) 0 (nb_swaptions nb) (ql nb)
             \<lparr>report_data = [], cum_err = 0, cum_err2 = 0\<rparr> = (Inl e, w)"
  shows "calibration_report lib nb = (Inl e, nb\<lparr>ql := w\<rparr>)"
  using assms by (simp add: calibration_report_def)

lemma calibration_report_prints:
  assumes "calibration_report_loop lib (nb_data nb) 0 (nb_swaptions nb) (ql nb)
             \<lparr>report_data = [], cum_err = 0, cum_err2 = 0\<rparr> = (Inr st, w)"
  shows "calibration_report lib nb =
      (Inr \<lparr>df_data = report_data st,
            df_columns = [''Model Price'', ''Market Price'', ''Implied Vol'', ''Market Vol'',
                          ''Rel Error Price'', ''Rel Error Vols''],
            df_index = replicate (length (report_data st)) []\<rparr>,
       nb\<lparr>ql := w,
           stdout := stdout nb @ [Cumulative_Error_Price (sqrt (cum_err st)),
                                  Cumulative_Error_Vols (sqrt (cum_err2 st))]\<rparr>)"
proof -
  from calibration_report_loop_cum_nonneg [OF assms]
  have "0 \<le> cum_err st" "0 \<le> cum_err2 st" by simp_all
  with assms show ?thesis
    by (simp add: calibration_report_def math_sqrt_def Let_def)
qed

lemma calibration_report_returns:
  assumes "fst (calibration_report lib nb) = Inr df"
  shows "\<exists>st w. calibration_report_loop lib (nb_data nb) 0 (nb_swaptions nb) (ql nb)
             \<lparr>report_data = [], cum_err = 0, cum_err2 = 0\<rparr> = (Inr st, w)
          \<and> df_data df = report_data st
          \<and> snd (calibration_report lib nb) =
              nb\<lparr>ql := w,
                  stdout := stdout nb @ [Cumulative_Error_Price (sqrt (cum_err st)),
                                         Cumulative_Error_Vols (sqrt (cum_err2 st))]\<rparr>"
proof (cases "calibration_report_loop lib (nb_data nb) 0 (nb_swaptions nb) (ql nb)
             \<lparr>report_data = [], cum_err = 0, cum_err2 = 0\<rparr>")
  case (Pair r w)
  show ?thesis
  proof (cases r)
    case (Inl e)
    with Pair assms calibration_report_raises [of lib nb e w] show ?thesis by simp
  next
    case (Inr st)
    with Pair assms calibration_report_prints [of lib nb st w] show ?thesis by auto
  qed
qed



subsection \<open>Methods that leave the library's objects as they were\<close>

lemma spec_read_only_calls:
  assumes "spec_read_only lib"
  shows "modelValue lib w s = (fst (modelValue lib w s), w)"
    and "blackPrice lib w s v = (fst (blackPrice lib w s v), w)"
    and "impliedVolatility lib w s p tol n lo hi
           = (fst (impliedVolatility lib w s p tol n lo hi), w)"
  using assms by (simp_all add: spec_read_only_def prod_eq_iff)

lemma report_row_of_read_only:
  assumes "spec_read_only lib"
  shows "snd (report_row_of lib w dat i s) = w"
proof -
  note c = spec_read_only_calls [OF assms]
  show ?thesis
    unfolding report_row_of_def
    by (subst c(1), simp split: sum.splits, intro allI impI conjI,
        subst c(2), simp split: sum.splits add: Let_def, intro allI impI conjI,
        subst c(3), simp split: sum.splits)
qed


lemma report_row_of_unchanged:
  assumes "spec_read_only lib"
  shows "report_row_of lib w dat i s = (fst (report_row_of lib w dat i s), w)"
  using report_row_of_read_only [OF assms, of w dat i s] by (simp add: prod_eq_iff)

text \<open>The loop stops at the first helper whose row is not produced.\<close>

lemma calibration_report_loop_fails:
  assumes ro: "spec_read_only lib"
  shows "k < length ss \<Longrightarrow> fst (report_row_of lib w dat (i + k) (ss ! k)) = Inl e
     \<Longrightarrow> \<exists>e'. calibration_report_loop lib dat i ss w st = (Inl e', w)"
proof (induction ss arbitrary: i k st)
  case Nil
  then show ?case by simp
next
  case (Cons s ss)
  note row = report_row_of_unchanged [OF ro, of w dat i s]
  show ?case
  proof (cases k)
    case 0
    with Cons.prems row show ?thesis by (cases "fst (report_row_of lib w dat i s)") auto
  next
    case (Suc k')
    with Cons.prems have k': "k' < length ss"
      and fails: "fst (report_row_of lib w dat (Suc i + k') (ss ! k')) = Inl e"
      by simp_all
    show ?thesis
    proof (cases "fst (report_row_of lib w dat i s)")
      case (Inl e0)
      with row have "report_row_of lib w dat i s = (Inl e0, w)" by simp
      then show ?thesis by simp
    next
      case (Inr r)
      with row have "report_row_of lib w dat i s = (Inr r, w)" by simp
      with Cons.IH [OF k' fails] show ?thesis by simp
    qed
  qed
qed

lemma calibration_report_loop_first_failure:
  assumes ro: "spec_read_only lib"
  shows "k < length ss
     \<Longrightarrow> \<forall>j<k. \<exists>row. fst (report_row_of lib w dat (i + j) (ss ! j)) = Inr row
     \<Longrightarrow> fst (report_row_of lib w dat (i + k) (ss ! k)) = Inl e
     \<Longrightarrow> calibration_report_loop lib dat i ss w st = (Inl e, w)"
proof (induction ss arbitrary: i k st)
  case Nil
  then show ?case by simp
next
  case (Cons s ss)
  note row = report_row_of_unchanged [OF ro, of w dat i s]
  show ?case
  proof (cases k)
    case 0
    with Cons.prems have "fst (report_row_of lib w dat i s) = Inl e" by simp
    with row have "report_row_of lib w dat i s = (Inl e, w)" by simp
    then show ?thesis by simp
  next
    case (Suc k')
    with Cons.prems have k': "k' < length ss"
      and fails: "fst (report_row_of lib w dat (Suc i + k') (ss ! k')) = Inl e"
      by simp_all
    from Cons.prems(2) Suc
    have "\<exists>row. fst (report_row_of lib w dat (i + 0) ((s # ss) ! 0)) = Inr row"
      by blast
    then obtain r where "fst (report_row_of lib w dat i s) = Inr r" by auto
    with row have r: "report_row_of lib w dat i s = (Inr r, w)" by simp
    have "\<forall>j<k'. \<exists>row. fst (report_row_of lib w dat (Suc i + j) (ss ! j)) = Inr row"
    proof (intro allI impI)
      fix j assume "j < k'"
      with Suc have "Suc j < k" by simp
      with Cons.prems(2)
      have "\<exists>row. fst (report_row_of lib w dat (i + Suc j) ((s # ss) ! Suc j)) = Inr row"
        by blast
      then show "\<exists>row. fst (report_row_of lib w dat (Suc i + j) (ss ! j)) = Inr row"
        by simp
    qed
    from Cons.IH [OF k' this fails] r show ?thesis by simp
  qed
qed

subsection \<open>The arguments of the root search, and its failure\<close>

lemma report_row_of_fixed_search:
  assumes "modelValue lib' = modelValue lib" and "blackPrice lib' = blackPrice lib"
    and "\<forall>w s p. impliedVolatility lib' w s p 0.00001 50 0.0 0.50
               = impliedVolatility lib w s p 0.00001 50 0.0 0.50"
  shows "report_row_of lib' w dat i s = report_row_of lib w dat i s"
  using assms by (auto simp: report_row_of_def Let_def split: prod.splits sum.splits)

lemma calibration_report_loop_fixed_search:
  assumes "modelValue lib' = modelValue lib" and "blackPrice lib' = blackPrice lib"
    and "\<forall>w s p. impliedVolatility lib' w s p 0.00001 50 0.0 0.50
               = impliedVolatility lib w s p 0.00001 50 0.0 0.50"
  shows "calibration_report_loop lib' dat i ss w st = calibration_report_loop lib dat i ss w st"
proof (induction ss arbitrary: i w st)
  case Nil
  show ?case by simp
next
  case (Cons s ss)
  show ?case
    by (simp add: report_row_of_fixed_search [OF assms] Cons.IH split: prod.splits sum.splits)
qed

lemma calibration_report_fixed_search:
  assumes "modelValue lib' = modelValue lib" and "blackPrice lib' = blackPrice lib"
    and "\<forall>w s p. impliedVolatility lib' w s p 0.00001 50 0.0 0.50
               = impliedVolatility lib w s p 0.00001 50 0.0 0.50"
  shows "calibration_report lib' nb = calibration_report lib nb"
  by (simp add: calibration_report_def calibration_report_loop_fixed_search [OF assms])

text \<open>
  A helper whose model price has no implied volatility within [0.0, 0.50]: its row is
  not produced, and the error is that of the root search when the quote exists and the
  Black price at the market volatility is defined and not zero.
\<close>

lemma report_row_of_fails:
  assumes ro: "spec_read_only lib" and rs: "spec_root_search_fails lib"
    and mv: "fst (modelValue lib w s) = Inr p"
    and out: "spec_outside_range lib w s p 0.0 0.50"
  shows "\<exists>e'. fst (report_row_of lib w dat i s) = Inl e'"
proof -
  from mv spec_read_only_calls(1) [OF ro, of w s]
  have m: "modelValue lib w s = (Inr p, w)" by simp
  from rs out have "fst (impliedVolatility lib w s p 0.00001 50 0.0 0.50) = Inl RuntimeError"
    unfolding spec_root_search_fails_def by blast
  with spec_read_only_calls(3) [OF ro, of w s p "0.00001" 50 "0.0" "0.50"]
  have iv: "impliedVolatility lib w s p 0.00001 50 0.0 0.50 = (Inl RuntimeError, w)" by simp
  obtain r where b: "blackPrice lib w s (volatility (dat ! i)) = (r, w)"
    using spec_read_only_calls(2) [OF ro] by blast
  from m iv b show ?thesis
    by (cases r) (auto simp: report_row_of_def Let_def)
qed

lemma report_row_of_root_error:
  assumes ro: "spec_read_only lib" and rs: "spec_root_search_fails lib"
    and mv: "fst (modelValue lib w s) = Inr p"
    and out: "spec_outside_range lib w s p 0.0 0.50"
    and i: "i < length dat"
    and bp: "fst (blackPrice lib w s (volatility (dat ! i))) = Inr bp" "bp \<noteq> 0"
  shows "fst (report_row_of lib w dat i s) = Inl RuntimeError"
proof -
  from mv spec_read_only_calls(1) [OF ro, of w s]
  have m: "modelValue lib w s = (Inr p, w)" by simp
  from rs out have "fst (impliedVolatility lib w s p 0.00001 50 0.0 0.50) = Inl RuntimeError"
    unfolding spec_root_search_fails_def by blast
  with spec_read_only_calls(3) [OF ro, of w s p "0.00001" 50 "0.0" "0.50"]
  have iv: "impliedVolatility lib w s p 0.00001 50 0.0 0.50 = (Inl RuntimeError, w)" by simp
  from bp(1) spec_read_only_calls(2) [OF ro, of w s "volatility (dat ! i)"]
  have b: "blackPrice lib w s (volatility (dat ! i)) = (Inr bp, w)" by simp
  from m iv b i bp(2) show ?thesis
    by (simp add: report_row_of_def Let_def)
qed

subsection \<open>The stand-in\<close>

lemma stub_methods_read_only: "spec_read_only stub_methods"
  by (simp add: spec_read_only_def stub_methods_def)

lemma stub_methods_root_search_fails: "spec_root_search_fails stub_methods"
  unfolding spec_root_search_fails_def spec_outside_range_def
  by (auto simp: stub_methods_def)

lemma calibration_report_loop_nb_four:
  "calibration_report_loop stub_methods (nb_data nb_four) 0 (nb_swaptions nb_four) (ql nb_four)
     \<lparr>report_data = [], cum_err = 0.0, cum_err2 = 0.0\<rparr> =
   (Inr \<lparr>report_data = [row_four, row_four, row_four, row_four], cum_err = 4, cum_err2 = 4\<rparr>,
    ql nb_four)"
  by (simp add: nb_four_def four_quotes_def helpers_of_def report_row_of_def
      stub_methods_def helper_of_def numeral_eq_Suc row_four_def power2_eq_square Let_def)

lemma calibration_report_nb_four:
  "calibration_report stub_methods nb_four =
     (Inr df_four, nb_four\<lparr>stdout := [Cumulative_Error_Price 2, Cumulative_Error_Vols 2]\<rparr>)"
proof -
  have "stdout nb_four = []" by (simp add: nb_four_def)
  then show ?thesis
    unfolding calibration_report_def calibration_report_loop_nb_four
    by (simp add: math_sqrt_def df_four_def numeral_eq_Suc)
qed

section \<open>Claims about calibration_report\<close>

text \<open>
  Claim C3, as the code has it. Whenever \<^verbatim>\<open>calibration_report\<close> returns its table, the
  two numbers it prints are root-sum-of-squares aggregates over all instruments: the
  cumulative price error is the square root of the sum (not of the mean) of the squared
  relative price errors of the rows, the cumulative vol error is the square root of the
  sum of the squared relative implied-vol errors of the rows, and the table has one row
  per helper.
\<close>

theorem calibration_report_cumulative_errors:
  assumes "fst (calibration_report lib nb) = Inr df"
  shows "stdout (snd (calibration_report lib nb)) =
           stdout nb @ [Cumulative_Error_Price (sqrt (\<Sum>r\<leftarrow>df_data df. (Rel_Error_Price r)\<^sup>2)),
                        Cumulative_Error_Vols (sqrt (\<Sum>r\<leftarrow>df_data df. (Rel_Error_Vols r)\<^sup>2))]
         \<and> length (df_data df) = length (nb_swaptions nb)"
proof -
  from calibration_report_returns [OF assms] obtain st w where
    loop: "calibration_report_loop lib (nb_data nb) 0 (nb_swaptions nb) (ql nb)
             \<lparr>report_data = [], cum_err = 0, cum_err2 = 0\<rparr> = (Inr st, w)"
    and df: "df_data df = report_data st"
    and out: "snd (calibration_report lib nb) =
              nb\<lparr>ql := w,
                  stdout := stdout nb @ [Cumulative_Error_Price (sqrt (cum_err st)),
                                         Cumulative_Error_Vols (sqrt (cum_err2 st))]\<rparr>"
    by blast
  from calibration_report_loop_rows [OF loop] have
    "report_data st = df_data df" "length (df_data df) = length (nb_swaptions nb)"
    "cum_err st = (\<Sum>r\<leftarrow>df_data df. (Rel_Error_Price r)\<^sup>2)"
    "cum_err2 st = (\<Sum>r\<leftarrow>df_data df. (Rel_Error_Vols r)\<^sup>2)"
    using df by auto
  with out show ?thesis by simp
qed

text \<open>The stand-in on four equal quotes: every relative error is 1, and both lines print 2.\<close>

theorem calibration_report_cumulative_errors_witness:
  "fst (calibration_report stub_methods nb_four) = Inr df_four
   \<and> stdout (snd (calibration_report stub_methods nb_four)) =
       stdout nb_four
         @ [Cumulative_Error_Price (sqrt (\<Sum>r\<leftarrow>df_data df_four. (Rel_Error_Price r)\<^sup>2)),
            Cumulative_Error_Vols (sqrt (\<Sum>r\<leftarrow>df_data df_four. (Rel_Error_Vols r)\<^sup>2))]
   \<and> length (df_data df_four) = length (nb_swaptions nb_four)"
proof -
  have r: "fst (calibration_report stub_methods nb_four) = Inr df_four"
    by (simp add: calibration_report_nb_four)
  from calibration_report_cumulative_errors [OF r] r show ?thesis by simp
qed

text \<open>
  Claim C3, as stated, fails: on the four equal quotes both printed numbers are 2, while
  the root mean square of the four relative errors is 1 in price and in vol.
\<close>

theorem calibration_report_cumulative_errors_not_rms:
  "fst (calibration_report stub_methods nb_four) = Inr df_four
   \<and> stdout (snd (calibration_report stub_methods nb_four))
       = [Cumulative_Error_Price 2, Cumulative_Error_Vols 2]
   \<and> spec_rms (map Rel_Error_Price (df_data df_four)) = 1
   \<and> spec_rms (map Rel_Error_Vols (df_data df_four)) = 1
   \<and> stdout (snd (calibration_report stub_methods nb_four))
       \<noteq> [Cumulative_Error_Price (spec_rms (map Rel_Error_Price (df_data df_four))),
          Cumulative_Error_Vols (spec_rms (map Rel_Error_Vols (df_data df_four)))]"
  by (simp add: calibration_report_nb_four spec_rms_def df_four_def row_four_def)



text \<open>
  Without the hypothesis on the methods the library's objects need not stay as they
  were: with the model price that empties the parameter vector, the call leaves it
  empty.
\<close>

lemma calibration_report_resetting:
  "\<not> spec_read_only stub_methods_resetting
   \<and> calibration_report stub_methods_resetting nb_four
       = (Inl RuntimeError,
          nb_four\<lparr>ql := \<lparr>yield_curve = term_structure, model_params = []\<rparr>\<rparr>)"
proof -
  have "snd (modelValue stub_methods_resetting (ql nb_four) (nb_swaptions nb_four ! 0))
          \<noteq> ql nb_four"
    by (simp add: stub_methods_resetting_def nb_four_def)
  then have "\<not> spec_read_only stub_methods_resetting"
    unfolding spec_read_only_def by blast
  moreover have "calibration_report stub_methods_resetting nb_four
       = (Inl RuntimeError,
          nb_four\<lparr>ql := \<lparr>yield_curve = term_structure, model_params = []\<rparr>\<rparr>)"
    by (simp add: calibration_report_def nb_four_def four_quotes_def helpers_of_def
        report_row_of_def stub_methods_resetting_def stub_methods_def helper_of_def
        numeral_eq_Suc Let_def)
  ultimately show ?thesis by simp
qed

text \<open>
  Claim C10, as the code has it. \<^verbatim>\<open>calibration_report\<close> consults the root search only
  with tolerance 1e-5, at most 50 iterations and the bounds 0.0 and 0.50: two libraries
  that agree on the model price, on the Black price and on the root search at these
  four arguments give the same report. Consequently, with helper methods that have no
  side effect and a root search that fails outside its bounds, as the specification
  says of them: for any helper whose model price has no implied volatility within
  [0.0, 0.50], the call raises instead of producing that helper's row, and writes
  nothing. The exception is the error of the root search when no earlier statement
  raises first, that is, when every earlier helper produces its row, the quote of the
  helper exists, and its Black price at the market volatility is defined and not zero.
\<close>

theorem calibration_report_fixed_root_search:
  "(modelValue lib' = modelValue lib \<and> blackPrice lib' = blackPrice lib
      \<and> (\<forall>w s p. impliedVolatility lib' w s p 0.00001 50 0.0 0.50
                 = impliedVolatility lib w s p 0.00001 50 0.0 0.50)
      \<longrightarrow> calibration_report lib' nb = calibration_report lib nb)
   \<and> (spec_read_only lib \<and> spec_root_search_fails lib
      \<and> k < length (nb_swaptions nb)
      \<and> fst (modelValue lib (ql nb) (nb_swaptions nb ! k)) = Inr p
      \<and> spec_outside_range lib (ql nb) (nb_swaptions nb ! k) p 0.0 0.50
      \<longrightarrow> (\<exists>e'. calibration_report lib nb = (Inl e', nb)))
   \<and> (spec_read_only lib \<and> spec_root_search_fails lib
      \<and> k < length (nb_swaptions nb)
      \<and> fst (modelValue lib (ql nb) (nb_swaptions nb ! k)) = Inr p
      \<and> spec_outside_range lib (ql nb) (nb_swaptions nb ! k) p 0.0 0.50
      \<and> (\<forall>j<k. \<exists>row. fst (report_row_of lib (ql nb) (nb_data nb) j (nb_swaptions nb ! j))
                        = Inr row)
      \<and> k < length (nb_data nb)
      \<and> fst (blackPrice lib (ql nb) (nb_swaptions nb ! k) (volatility (nb_data nb ! k)))
          = Inr bp
      \<and> bp \<noteq> 0
      \<longrightarrow> calibration_report lib nb = (Inl RuntimeError, nb))"
proof (intro conjI impI)
  assume "modelValue lib' = modelValue lib \<and> blackPrice lib' = blackPrice lib
      \<and> (\<forall>w s p. impliedVolatility lib' w s p 0.00001 50 0.0 0.50
                 = impliedVolatility lib w s p 0.00001 50 0.0 0.50)"
  then show "calibration_report lib' nb = calibration_report lib nb"
    by (intro calibration_report_fixed_search) simp_all
next
  assume a: "spec_read_only lib \<and> spec_root_search_fails lib
      \<and> k < length (nb_swaptions nb)
      \<and> fst (modelValue lib (ql nb) (nb_swaptions nb ! k)) = Inr p
      \<and> spec_outside_range lib (ql nb) (nb_swaptions nb ! k) p 0.0 0.50"
  then have ro: "spec_read_only lib" and k: "k < length (nb_swaptions nb)" by simp_all
  from a report_row_of_fails [of lib "ql nb" "nb_swaptions nb ! k" p "nb_data nb" "0 + k"]
  obtain e0 where
    "fst (report_row_of lib (ql nb) (nb_data nb) (0 + k) (nb_swaptions nb ! k)) = Inl e0"
    by blast
  from calibration_report_loop_fails [OF ro k this] obtain e' where
    "calibration_report_loop lib (nb_data nb) 0 (nb_swaptions nb) (ql nb)
       \<lparr>report_data = [], cum_err = 0, cum_err2 = 0\<rparr> = (Inl e', ql nb)"
    by blast
  from calibration_report_raises [OF this]
  show "\<exists>e'. calibration_report lib nb = (Inl e', nb)" by simp
next
  assume a: "spec_read_only lib \<and> spec_root_search_fails lib
      \<and> k < length (nb_swaptions nb)
      \<and> fst (modelValue lib (ql nb) (nb_swaptions nb ! k)) = Inr p
      \<and> spec_outside_range lib (ql nb) (nb_swaptions nb ! k) p 0.0 0.50
      \<and> (\<forall>j<k. \<exists>row. fst (report_row_of lib (ql nb) (nb_data nb) j (nb_swaptions nb ! j))
                        = Inr row)
      \<and> k < length (nb_data nb)
      \<and> fst (blackPrice lib (ql nb) (nb_swaptions nb ! k) (volatility (nb_data nb ! k)))
          = Inr bp
      \<and> bp \<noteq> 0"
  then have ro: "spec_read_only lib" and k: "k < length (nb_swaptions nb)" by simp_all
  from a report_row_of_root_error
         [of lib "ql nb" "nb_swaptions nb ! k" p "0 + k" "nb_data nb" bp]
  have row: "fst (report_row_of lib (ql nb) (nb_data nb) (0 + k) (nb_swaptions nb ! k))
               = Inl RuntimeError"
    by simp
  from a have pre: "\<forall>j<k. \<exists>row. fst (report_row_of lib (ql nb) (nb_data nb) (0 + j)
                                      (nb_swaptions nb ! j)) = Inr row"
    by simp
  from calibration_report_loop_first_failure [OF ro k pre row]
  have "calibration_report_loop lib (nb_data nb) 0 (nb_swaptions nb) (ql nb)
          \<lparr>report_data = [], cum_err = 0, cum_err2 = 0\<rparr> = (Inl RuntimeError, ql nb)" .
  from calibration_report_raises [OF this]
  show "calibration_report lib nb = (Inl RuntimeError, nb)" by simp
qed

text \<open>
  The stand-in on two quotes: the model price 1.0 of the second helper has no implied
  volatility within [0.0, 0.50], the first helper produces its row, and the report
  raises the error of the root search; the stricter stand-in gives the same report.
\<close>

theorem calibration_report_fixed_root_search_witness:
  "modelValue stub_methods_strict = modelValue stub_methods
   \<and> blackPrice stub_methods_strict = blackPrice stub_methods
   \<and> (\<forall>w s p. impliedVolatility stub_methods_strict w s p 0.00001 50 0.0 0.50
               = impliedVolatility stub_methods w s p 0.00001 50 0.0 0.50)
   \<and> calibration_report stub_methods_strict nb_two = calibration_report stub_methods nb_two
   \<and> spec_read_only stub_methods
   \<and> spec_root_search_fails stub_methods
   \<and> (1::nat) < length (nb_swaptions nb_two)
   \<and> fst (modelValue stub_methods (ql nb_two) (nb_swaptions nb_two ! 1)) = Inr 1
   \<and> spec_outside_range stub_methods (ql nb_two) (nb_swaptions nb_two ! 1) 1 0.0 0.50
   \<and> fst (report_row_of stub_methods (ql nb_two) (nb_data nb_two) 0 (nb_swaptions nb_two ! 0))
       = Inr \<lparr>Model_Price = 0.2, Market_Price = 0.1, Implied_Vol = 0.2, Market_Vol = 0.1,
              Rel_Error_Price = 1, Rel_Error_Vols = 1\<rparr>
   \<and> (1::nat) < length (nb_data nb_two)
   \<and> fst (blackPrice stub_methods (ql nb_two) (nb_swaptions nb_two ! 1)
            (volatility (nb_data nb_two ! 1))) = Inr 0.1
   \<and> calibration_report stub_methods nb_two = (Inl RuntimeError, nb_two)"
proof -
  have mv: "modelValue stub_methods_strict = modelValue stub_methods"
    and bp: "blackPrice stub_methods_strict = blackPrice stub_methods"
    and iv: "\<forall>w s p. impliedVolatility stub_methods_strict w s p 0.00001 50 0.0 0.50
                   = impliedVolatility stub_methods w s p 0.00001 50 0.0 0.50"
    by (simp_all add: stub_methods_strict_def)
  have sw: "nb_swaptions nb_two =
      [helper_of index term_structure engine_hw \<lparr>start = 1, length_cd = 1, volatility = 0.1\<rparr>,
       helper_of index term_structure engine_hw \<lparr>start = 1, length_cd = 5, volatility = 0.1\<rparr>]"
    and dt: "nb_data nb_two = two_quotes"
    and q: "ql nb_two = \<lparr>yield_curve = term_structure, model_params = [0.2, 0.01]\<rparr>"
    by (simp_all add: nb_two_def two_quotes_def helpers_of_def)
  have k: "(1::nat) < length (nb_swaptions nb_two)" by (simp add: sw)
  have kd: "(1::nat) < length (nb_data nb_two)" by (simp add: dt two_quotes_def)
  have r0: "fst (report_row_of stub_methods (ql nb_two) (nb_data nb_two) 0
                   (nb_swaptions nb_two ! 0))
       = Inr \<lparr>Model_Price = 0.2, Market_Price = 0.1, Implied_Vol = 0.2, Market_Vol = 0.1,
              Rel_Error_Price = 1, Rel_Error_Vols = 1\<rparr>"
    by (simp add: sw dt q two_quotes_def report_row_of_def stub_methods_def helper_of_def Let_def)
  have m1: "fst (modelValue stub_methods (ql nb_two) (nb_swaptions nb_two ! 1)) = Inr 1"
    by (simp add: sw q stub_methods_def helper_of_def)
  have b1: "fst (blackPrice stub_methods (ql nb_two) (nb_swaptions nb_two ! 1)
                  (volatility (nb_data nb_two ! 1))) = Inr 0.1"
    by (simp add: dt two_quotes_def stub_methods_def)
  have o1: "spec_outside_range stub_methods (ql nb_two) (nb_swaptions nb_two ! 1) 1 0.0 0.50"
    by (simp add: spec_outside_range_def stub_methods_def)
  have pre: "\<forall>j<1. \<exists>row. fst (report_row_of stub_methods (ql nb_two) (nb_data nb_two) j
                (nb_swaptions nb_two ! j)) = Inr row"
    using r0 by simp
  note t = calibration_report_fixed_root_search
             [of stub_methods_strict stub_methods nb_two 1 1 "0.1"]
  from t mv bp iv have same:
    "calibration_report stub_methods_strict nb_two = calibration_report stub_methods nb_two"
    by blast
  from t stub_methods_read_only stub_methods_root_search_fails k m1 o1 pre kd b1 have fails:
    "calibration_report stub_methods nb_two = (Inl RuntimeError, nb_two)"
    by simp
  from mv bp iv same stub_methods_read_only stub_methods_root_search_fails k m1 o1 r0 kd b1 fails
  show ?thesis by simp
qed

text \<open>
  Claim C10, as stated, fails. Under the stand-in the model price 1.0 of the helper of
  the quote (1, 5, 0) has no implied volatility within [0.0, 0.50], yet the report
  raises \<^verbatim>\<open>ZeroDivisionError\<close>, from the division by the Black price, before the root
  search is called; and with the helpers of the two quotes and an empty quote list it
  raises \<^verbatim>\<open>IndexError\<close>.
\<close>

theorem calibration_report_other_error_first:
  "spec_read_only stub_methods
   \<and> spec_root_search_fails stub_methods
   \<and> fst (modelValue stub_methods (ql nb_zero_vol) (nb_swaptions nb_zero_vol ! 0)) = Inr 1
   \<and> spec_outside_range stub_methods (ql nb_zero_vol) (nb_swaptions nb_zero_vol ! 0) 1 0.0 0.50
   \<and> fst (impliedVolatility stub_methods (ql nb_zero_vol) (nb_swaptions nb_zero_vol ! 0)
            1 0.00001 50 0.0 0.50) = Inl RuntimeError
   \<and> calibration_report stub_methods nb_zero_vol = (Inl ZeroDivisionError, nb_zero_vol)
   \<and> fst (modelValue stub_methods (ql nb_no_quotes) (nb_swaptions nb_no_quotes ! 1)) = Inr 1
   \<and> spec_outside_range stub_methods (ql nb_no_quotes) (nb_swaptions nb_no_quotes ! 1) 1 0.0 0.50
   \<and> calibration_report stub_methods nb_no_quotes = (Inl IndexError, nb_no_quotes)"
proof -
  have z: "nb_swaptions nb_zero_vol =
      [helper_of index term_structure engine_hw \<lparr>start = 1, length_cd = 5, volatility = 0\<rparr>]"
    "nb_data nb_zero_vol = zero_vol_quotes"
    "ql nb_zero_vol = \<lparr>yield_curve = term_structure, model_params = [0.2, 0.01]\<rparr>"
    by (simp_all add: nb_zero_vol_def zero_vol_quotes_def helpers_of_def)
  have n: "nb_swaptions nb_no_quotes =
      [helper_of index term_structure engine_hw \<lparr>start = 1, length_cd = 1, volatility = 0.1\<rparr>,
       helper_of index term_structure engine_hw \<lparr>start = 1, length_cd = 5, volatility = 0.1\<rparr>]"
    "nb_data nb_no_quotes = []"
    "ql nb_no_quotes = \<lparr>yield_curve = term_structure, model_params = [0.2, 0.01]\<rparr>"
    by (simp_all add: nb_no_quotes_def nb_two_def two_quotes_def helpers_of_def)
  have "fst (modelValue stub_methods (ql nb_zero_vol) (nb_swaptions nb_zero_vol ! 0)) = Inr 1"
    by (simp add: z stub_methods_def helper_of_def)
  moreover have
    "spec_outside_range stub_methods (ql nb_zero_vol) (nb_swaptions nb_zero_vol ! 0) 1 0.0 0.50"
    by (simp add: spec_outside_range_def stub_methods_def)
  moreover have
    "fst (impliedVolatility stub_methods (ql nb_zero_vol) (nb_swaptions nb_zero_vol ! 0)
            1 0.00001 50 0.0 0.50) = Inl RuntimeError"
    by (simp add: stub_methods_def)
  moreover have
    "calibration_report stub_methods nb_zero_vol = (Inl ZeroDivisionError, nb_zero_vol)"
    by (simp add: calibration_report_def z zero_vol_quotes_def report_row_of_def
        stub_methods_def helper_of_def Let_def)
  moreover have
    "fst (modelValue stub_methods (ql nb_no_quotes) (nb_swaptions nb_no_quotes ! 1)) = Inr 1"
    by (simp add: n stub_methods_def helper_of_def)
  moreover have
    "spec_outside_range stub_methods (ql nb_no_quotes) (nb_swaptions nb_no_quotes ! 1) 1 0.0 0.50"
    by (simp add: spec_outside_range_def stub_methods_def)
  moreover have
    "calibration_report stub_methods nb_no_quotes = (Inl IndexError, nb_no_quotes)"
    by (simp add: calibration_report_def n report_row_of_def stub_methods_def helper_of_def
        Let_def)
  ultimately show ?thesis
    using stub_methods_read_only stub_methods_root_search_fails by simp
qed

end
